theory Spec2Isabelle
  imports Main
begin

section \<open>Python strings\<close>

text \<open>
  A Python \<open>str\<close> is held as the bytes of its UTF-8 encoding, so a literal such as
  \<open>''abc''\<close> is the string \<open>abc\<close>. The string methods and the regular expressions of
  the source work on characters (code points): \<open>chars_of\<close> cuts a string into the byte
  groups of its characters and \<open>codepoint\<close> reads the code point of one group. A byte list
  that is not UTF-8 stands for no Python string; its ill-formed groups read as U+FFFD.
  The character classes are those of CPython 3.11 (Unicode 14.0.0).
\<close>

datatype py_error =
  TypeError | AttributeError | ValueError | RecursionError | OverflowError

definition utf8_len :: "char \<Rightarrow> nat" where
  "utf8_len c =
     (let b = (of_char c :: nat)
      in if 0xC0 \<le> b \<and> b < 0xE0 then 2
         else if 0xE0 \<le> b \<and> b < 0xF0 then 3
         else if 0xF0 \<le> b \<and> b < 0xF8 then 4
         else 1)"

fun chars_of :: "string \<Rightarrow> string list" where
  "chars_of [] = []"
| "chars_of (c # cs) = (c # take (utf8_len c - 1) cs) # chars_of (drop (utf8_len c - 1) cs)"

definition cont :: "nat \<Rightarrow> bool" where
  "cont b = (0x80 \<le> b \<and> b < 0xC0)"

definition codepoint :: "string \<Rightarrow> nat" where
  "codepoint ch =
     (case map of_char ch of
        [a] \<Rightarrow> if a < 0x80 then a else 0xFFFD
      | [a, b] \<Rightarrow>
          if 0xC2 \<le> a \<and> a < 0xE0 \<and> cont b then (a - 0xC0) * 64 + (b - 0x80) else 0xFFFD
      | [a, b, c] \<Rightarrow>
          (let v = (a - 0xE0) * 4096 + (b - 0x80) * 64 + (c - 0x80)
           in if 0xE0 \<le> a \<and> a < 0xF0 \<and> cont b \<and> cont c \<and> 0x800 \<le> v \<and>
                 \<not> (0xD800 \<le> v \<and> v < 0xE000)
              then v else 0xFFFD)
      | [a, b, c, d] \<Rightarrow>
          (let v = (a - 0xF0) * 262144 + (b - 0x80) * 4096 + (c - 0x80) * 64 + (d - 0x80)
           in if 0xF0 \<le> a \<and> a < 0xF8 \<and> cont b \<and> cont c \<and> cont d \<and>
                 0x10000 \<le> v \<and> v < 0x110000
              then v else 0xFFFD)
      | _ \<Rightarrow> 0xFFFD)"

definition in_ranges :: "nat \<Rightarrow> (nat \<times> nat) list \<Rightarrow> bool" where
  "in_ranges cp rs = list_ex (\<lambda>r. fst r \<le> cp \<and> cp \<le> snd r) rs"

text \<open>The characters for which \<open>str.isspace\<close> holds; \<open>str.strip\<close> removes them.\<close>

definition space_ranges :: "(nat \<times> nat) list" where
  "space_ranges =
     [(0x9, 0xD), (0x1C, 0x20), (0x85, 0x85), (0xA0, 0xA0), (0x1680, 0x1680),
      (0x2000, 0x200A), (0x2028, 0x2029), (0x202F, 0x202F), (0x205F, 0x205F),
      (0x3000, 0x3000)]"

definition is_space :: "string \<Rightarrow> bool" where
  "is_space ch = in_ranges (codepoint ch) space_ranges"

text \<open>The decimal digits (category Nd) beyond ASCII, in runs of ten with the values 0 to 9
  in order. The class \<open>\d\<close> of \<open>re\<close> and the digits \<open>int\<close> reads are these and the
  ASCII digits.\<close>

definition decimal_ranges :: "(nat \<times> nat) list" where
  "decimal_ranges =
     [(0x660, 0x669), (0x6F0, 0x6F9), (0x7C0, 0x7C9), (0x966, 0x96F), (0x9E6, 0x9EF),
      (0xA66, 0xA6F), (0xAE6, 0xAEF), (0xB66, 0xB6F), (0xBE6, 0xBEF), (0xC66, 0xC6F),
      (0xCE6, 0xCEF), (0xD66, 0xD6F), (0xDE6, 0xDEF), (0xE50, 0xE59), (0xED0, 0xED9),
      (0xF20, 0xF29), (0x1040, 0x1049), (0x1090, 0x1099), (0x17E0, 0x17E9),
      (0x1810, 0x1819), (0x1946, 0x194F), (0x19D0, 0x19D9), (0x1A80, 0x1A89),
      (0x1A90, 0x1A99), (0x1B50, 0x1B59), (0x1BB0, 0x1BB9), (0x1C40, 0x1C49),
      (0x1C50, 0x1C59), (0xA620, 0xA629), (0xA8D0, 0xA8D9), (0xA900, 0xA909),
      (0xA9D0, 0xA9D9), (0xA9F0, 0xA9F9), (0xAA50, 0xAA59), (0xABF0, 0xABF9),
      (0xFF10, 0xFF19), (0x104A0, 0x104A9), (0x10D30, 0x10D39), (0x11066, 0x1106F),
      (0x110F0, 0x110F9), (0x11136, 0x1113F), (0x111D0, 0x111D9), (0x112F0, 0x112F9),
      (0x11450, 0x11459), (0x114D0, 0x114D9), (0x11650, 0x11659), (0x116C0, 0x116C9),
      (0x11730, 0x11739), (0x118E0, 0x118E9), (0x11950, 0x11959), (0x11C50, 0x11C59),
      (0x11D50, 0x11D59), (0x11DA0, 0x11DA9), (0x16A60, 0x16A69), (0x16AC0, 0x16AC9),
      (0x16B50, 0x16B59), (0x1D7CE, 0x1D7FF), (0x1E140, 0x1E149), (0x1E2F0, 0x1E2F9),
      (0x1E950, 0x1E959), (0x1FBF0, 0x1FBF9)]"

definition is_decimal :: "string \<Rightarrow> bool" where
  "is_decimal ch =
     (let cp = codepoint ch
      in if cp < 128 then 48 \<le> cp \<and> cp \<le> 57 else in_ranges cp decimal_ranges)"

definition decimal_value :: "string \<Rightarrow> nat" where
  "decimal_value ch =
     (let cp = codepoint ch
      in if cp < 128 then cp - 48
         else (case find (\<lambda>r. fst r \<le> cp \<and> cp \<le> snd r) decimal_ranges of
                 Some r \<Rightarrow> (cp - fst r) mod 10
               | None \<Rightarrow> 0))"

text \<open>The characters beyond ASCII for which \<open>str.isdigit\<close> holds: the decimal digits and
  others, such as the superscript digits, that \<open>int\<close> does not read.\<close>

definition digit_ranges :: "(nat \<times> nat) list" where
  "digit_ranges =
     [(0xB2, 0xB3), (0xB9, 0xB9), (0x660, 0x669), (0x6F0, 0x6F9), (0x7C0, 0x7C9),
      (0x966, 0x96F), (0x9E6, 0x9EF), (0xA66, 0xA6F), (0xAE6, 0xAEF), (0xB66, 0xB6F),
      (0xBE6, 0xBEF), (0xC66, 0xC6F), (0xCE6, 0xCEF), (0xD66, 0xD6F), (0xDE6, 0xDEF),
      (0xE50, 0xE59), (0xED0, 0xED9), (0xF20, 0xF29), (0x1040, 0x1049), (0x1090, 0x1099),
      (0x1369, 0x1371), (0x17E0, 0x17E9), (0x1810, 0x1819), (0x1946, 0x194F),
      (0x19D0, 0x19DA), (0x1A80, 0x1A89), (0x1A90, 0x1A99), (0x1B50, 0x1B59),
      (0x1BB0, 0x1BB9), (0x1C40, 0x1C49), (0x1C50, 0x1C59), (0x2070, 0x2070),
      (0x2074, 0x2079), (0x2080, 0x2089), (0x2460, 0x2468), (0x2474, 0x247C),
      (0x2488, 0x2490), (0x24EA, 0x24EA), (0x24F5, 0x24FD), (0x24FF, 0x24FF),
      (0x2776, 0x277E), (0x2780, 0x2788), (0x278A, 0x2792), (0xA620, 0xA629),
      (0xA8D0, 0xA8D9), (0xA900, 0xA909), (0xA9D0, 0xA9D9), (0xA9F0, 0xA9F9),
      (0xAA50, 0xAA59), (0xABF0, 0xABF9), (0xFF10, 0xFF19), (0x104A0, 0x104A9),
      (0x10A40, 0x10A43), (0x10D30, 0x10D39), (0x10E60, 0x10E68), (0x11052, 0x1105A),
      (0x11066, 0x1106F), (0x110F0, 0x110F9), (0x11136, 0x1113F), (0x111D0, 0x111D9),
      (0x112F0, 0x112F9), (0x11450, 0x11459), (0x114D0, 0x114D9), (0x11650, 0x11659),
      (0x116C0, 0x116C9), (0x11730, 0x11739), (0x118E0, 0x118E9), (0x11950, 0x11959),
      (0x11C50, 0x11C59), (0x11D50, 0x11D59), (0x11DA0, 0x11DA9), (0x16A60, 0x16A69),
      (0x16AC0, 0x16AC9), (0x16B50, 0x16B59), (0x1D7CE, 0x1D7FF), (0x1E140, 0x1E149),
      (0x1E2F0, 0x1E2F9), (0x1E950, 0x1E959), (0x1F100, 0x1F10A), (0x1FBF0, 0x1FBF9)]"

definition is_digit :: "string \<Rightarrow> bool" where
  "is_digit ch =
     (let cp = codepoint ch
      in if cp < 128 then 48 \<le> cp \<and> cp \<le> 57 else in_ranges cp digit_ranges)"

text \<open>\<open>str.strip()\<close>.\<close>

definition strip :: "string \<Rightarrow> string" where
  "strip s = concat (rev (dropWhile is_space (rev (dropWhile is_space (chars_of s)))))"

text \<open>\<open>s.startswith(p)\<close>.\<close>

definition startswith :: "string \<Rightarrow> string \<Rightarrow> bool" where
  "startswith s p = (take (length p) s = p)"

text \<open>\<open>str.isdigit\<close>: false on the empty string.\<close>

definition isdigit :: "string \<Rightarrow> bool" where
  "isdigit s = (s \<noteq> [] \<and> list_all is_digit (chars_of s))"

text \<open>The blanks \<open>int\<close> skips around a number: of the ASCII characters only the blank and
  tab to carriage return, of the others every space character.\<close>

definition is_int_space :: "string \<Rightarrow> bool" where
  "is_int_space ch =
     (let cp = codepoint ch
      in if cp < 128 then cp = 32 \<or> (9 \<le> cp \<and> cp \<le> 13) else is_space ch)"

text \<open>The digit part of an integer literal accepted by \<open>int\<close>: decimal digits, with
  single underscores allowed between digits.\<close>

fun valid_digits :: "string list \<Rightarrow> bool" where
  "valid_digits [] = False"
| "valid_digits [c] = is_decimal c"
| "valid_digits (c # d # r) =
     (is_decimal c \<and> (if d = ''_'' then valid_digits r else valid_digits (d # r)))"

text \<open>\<open>int(s)\<close> on a string: the blanks around are dropped, one sign is allowed; anything
  else raises \<open>ValueError\<close>. (The limit Python puts on the number of digits, 4300 by
  default, is not modelled.)\<close>

definition py_int :: "string \<Rightarrow> py_error + int" where
  "py_int s =
     (let t = rev (dropWhile is_int_space (rev (dropWhile is_int_space (chars_of s))));
          signed = (case t of [] \<Rightarrow> False | c # r \<Rightarrow> c = ''-'' \<or> c = ''+'');
          neg = (case t of [] \<Rightarrow> False | c # r \<Rightarrow> c = ''-'');
          body = (if signed then drop 1 t else t)
      in if valid_digits body
         then Inr ((if neg then - 1 else 1) *
                   foldl (\<lambda>acc c. 10 * acc + int (decimal_value c)) 0
                     (filter (\<lambda>c. c \<noteq> ''_'') body))
         else Inl ValueError)"

section \<open>Normalising an identifier: \<open>_extract_article_from_url\<close>\<close>

text \<open>
  \<open>re.search\<close> tries the pattern at every position of the string, from the left, and
  returns the first match. The pattern is given by its anchored matcher \<open>m\<close>. Both
  patterns of the source begin with a slash, so a match begins at a character.
\<close>

fun re_search :: "(string \<Rightarrow> string option) \<Rightarrow> string \<Rightarrow> string option" where
  "re_search m [] = m []"
| "re_search m (c # cs) =
     (case m (c # cs) of Some g \<Rightarrow> Some g | None \<Rightarrow> re_search m cs)"

text \<open>
  The pattern \<open>/catalog/(\d+)/detail\.aspx\<close> anchored at the head of \<open>s\<close>: the literal
  \<open>/catalog/\<close>, then the whole run of decimal digits that follows (the greedy \<open>\d+\<close>;
  giving digits back cannot help, since the next character would be a digit and not the
  slash), then the literal \<open>/detail.aspx\<close>. The result is group 1.
\<close>

definition match_catalog :: "string \<Rightarrow> string option" where
  "match_catalog s =
     (if startswith s ''/catalog/'' then
        (let r = chars_of (drop 9 s);
             ds = takeWhile is_decimal r;
             rest = concat (dropWhile is_decimal r)
         in if ds \<noteq> [] \<and> startswith rest ''/detail.aspx'' then Some (concat ds) else None)
      else None)"

text \<open>The pattern \<open>/(\d{6,})/\<close>: a slash, a run of at least six decimal digits (again the
  whole run), a slash.\<close>

definition match_number :: "string \<Rightarrow> string option" where
  "match_number s =
     (if startswith s ''/'' then
        (let r = chars_of (drop 1 s);
             ds = takeWhile is_decimal r;
             rest = concat (dropWhile is_decimal r)
         in if 6 \<le> length ds \<and> startswith rest ''/'' then Some (concat ds) else None)
      else None)"

definition extract_article_from_url :: "string \<Rightarrow> string" where
  "extract_article_from_url article =
     (if startswith article ''http'' then
        (case re_search match_catalog article of
           Some g \<Rightarrow> g
         | None \<Rightarrow>
             (case re_search match_number article of
                Some g \<Rightarrow> g
              | None \<Rightarrow> strip article))
      else strip article)"

text \<open>The specification's fallback, in its own words: the first run of at least six
  consecutive digits anywhere in the string.\<close>

fun spec_first_digit_run :: "string list \<Rightarrow> string option" where
  "spec_first_digit_run [] = None"
| "spec_first_digit_run (c # cs) =
     (let ds = takeWhile is_decimal (c # cs)
      in if 6 \<le> length ds then Some (concat ds) else spec_first_digit_run cs)"

definition spec_extract_article :: "string \<Rightarrow> string" where
  "spec_extract_article article =
     (if startswith article ''http'' then
        (case re_search match_catalog article of
           Some g \<Rightarrow> g
         | None \<Rightarrow>
             (case spec_first_digit_run (chars_of article) of
                Some g \<Rightarrow> g
              | None \<Rightarrow> strip article))
      else strip article)"

section \<open>JSON values as Python sees them\<close>

text \<open>
  What \<open>response.json()\<close> returns: \<open>None\<close>, a bool, an int, a str, a list or a dict.
  A dict is an association list with distinct keys, in insertion order. Numbers are
  integers; non-integer numbers (Python floats) are outside the model.
\<close>

datatype json =
    JNull
  | JBool bool
  | JInt int
  | JStr string
  | JArr "json list"
  | JObj "(string \<times> json) list"

text \<open>Truth value of an object in a condition (\<open>if x\<close>, \<open>x or y\<close>, \<open>not x\<close>).\<close>

fun truthy :: "json \<Rightarrow> bool" where
  "truthy JNull = False"
| "truthy (JBool b) = b"
| "truthy (JInt n) = (n \<noteq> 0)"
| "truthy (JStr s) = (s \<noteq> [])"
| "truthy (JArr xs) = (xs \<noteq> [])"
| "truthy (JObj kvs) = (kvs \<noteq> [])"

definition py_or :: "json \<Rightarrow> json \<Rightarrow> json" where
  "py_or a b = (if truthy a then a else b)"

text \<open>\<open>d.get(key, default)\<close> on a dict; \<open>d.get(key)\<close> has the default \<open>None\<close>.\<close>

definition dict_get_default :: "(string \<times> json) list \<Rightarrow> string \<Rightarrow> json \<Rightarrow> json" where
  "dict_get_default kvs key dflt = (case map_of kvs key of Some v \<Rightarrow> v | None \<Rightarrow> dflt)"

definition dict_get :: "(string \<times> json) list \<Rightarrow> string \<Rightarrow> json" where
  "dict_get kvs key = dict_get_default kvs key JNull"

text \<open>\<open>sub in s\<close> on strings.\<close>

fun contains_sub :: "string \<Rightarrow> string \<Rightarrow> bool" where
  "contains_sub [] sub = (sub = [])"
| "contains_sub (c # cs) sub = (startswith (c # cs) sub \<or> contains_sub cs sub)"

text \<open>\<open>key in x\<close> for a string \<open>key\<close>: key membership on a dict, element membership
  on a list, substring test on a string, \<open>TypeError\<close> on the values that are not
  iterable.\<close>

fun py_contains :: "string \<Rightarrow> json \<Rightarrow> py_error + bool" where
  "py_contains key (JObj kvs) = Inr (key \<in> fst ` set kvs)"
| "py_contains key (JArr xs) = Inr (JStr key \<in> set xs)"
| "py_contains key (JStr s) = Inr (contains_sub s key)"
| "py_contains key _ = Inl TypeError"

text \<open>\<open>x[key]\<close> for a string \<open>key\<close>, used only after \<open>key in x\<close> held: lists and
  strings take integer indices only.\<close>

fun py_getitem :: "json \<Rightarrow> string \<Rightarrow> py_error + json" where
  "py_getitem (JObj kvs) key = Inr (dict_get kvs key)"
| "py_getitem _ key = Inl TypeError"

text \<open>The elements \<open>for x in v\<close> and \<open>list.extend(v)\<close> run over: the elements of a
  list, the keys of a dict, the characters of a string. The other values are not
  iterable (and have no \<open>len\<close>).\<close>

fun py_iter :: "json \<Rightarrow> py_error + json list" where
  "py_iter (JArr xs) = Inr xs"
| "py_iter (JObj kvs) = Inr (map (\<lambda>kv. JStr (fst kv)) kvs)"
| "py_iter (JStr s) = Inr (map JStr (chars_of s))"
| "py_iter _ = Inl TypeError"

fun is_dict :: "json \<Rightarrow> bool" where
  "is_dict (JObj kvs) = True"
| "is_dict _ = False"

subsection \<open>\<open>str\<close>\<close>

text \<open>The decimal and the hexadecimal digit of a value below 10 and below 16.\<close>

definition digit_char :: "nat \<Rightarrow> char" where
  "digit_char d = ''0123456789'' ! d"

fun str_nat :: "nat \<Rightarrow> string" where
  "str_nat n = (if n < 10 then [digit_char n] else str_nat (n div 10) @ [digit_char (n mod 10)])"

definition str_int :: "int \<Rightarrow> string" where
  "str_int i = (if i < 0 then CHR ''-'' # str_nat (nat (- i)) else str_nat (nat i))"

definition hex_char :: "nat \<Rightarrow> char" where
  "hex_char d = ''0123456789abcdef'' ! d"

text \<open>\<open>repr\<close> of a string (ASCII): single quotes, unless the string has a single quote
  and no double quote; backslash, the quote in use, newline, carriage return and tab are
  escaped, the other control characters are written \<open>\xNN\<close>.\<close>

definition repr_char :: "char \<Rightarrow> char \<Rightarrow> string" where
  "repr_char q c =
     (if c = q \<or> c = CHR 0x5C then [CHR 0x5C, c]
      else if c = CHR 0x0A then [CHR 0x5C, CHR ''n'']
      else if c = CHR 0x0D then [CHR 0x5C, CHR ''r'']
      else if c = CHR 0x09 then [CHR 0x5C, CHR ''t'']
      else if (of_char c :: nat) < 32 \<or> (of_char c :: nat) = 127 then
        [CHR 0x5C, CHR ''x'', hex_char ((of_char c :: nat) div 16), hex_char ((of_char c :: nat) mod 16)]
      else [c])"

definition repr_str :: "string \<Rightarrow> string" where
  "repr_str s =
     (let q = (if CHR 0x27 \<in> set s \<and> CHR 0x22 \<notin> set s then CHR 0x22 else CHR 0x27)
      in [q] @ concat (map (repr_char q) s) @ [q])"

definition join_comma :: "string list \<Rightarrow> string" where
  "join_comma xs = (case xs of [] \<Rightarrow> [] | y # ys \<Rightarrow> y @ concat (map (\<lambda>x. '', '' @ x) ys))"

fun py_repr :: "json \<Rightarrow> string" where
  "py_repr JNull = ''None''"
| "py_repr (JBool b) = (if b then ''True'' else ''False'')"
| "py_repr (JInt i) = str_int i"
| "py_repr (JStr s) = repr_str s"
| "py_repr (JArr xs) = ''['' @ join_comma (map py_repr xs) @ '']''"
| "py_repr (JObj kvs) =
     ''{'' @ join_comma (map (\<lambda>kv. repr_str (fst kv) @ '': '' @ py_repr (snd kv)) kvs) @ ''}''"

text \<open>\<open>str(x)\<close>: a string is itself, everything else is its \<open>repr\<close>.\<close>

fun py_str :: "json \<Rightarrow> string" where
  "py_str (JStr s) = s"
| "py_str x = py_repr x"

section \<open>The world the client runs in\<close>

text \<open>
  Times are integer milliseconds: \<open>0.6\<close> seconds is \<open>600\<close>, \<open>6.0\<close> seconds is
  \<open>6000\<close>; the rounding of Python's floats is not modelled. The server is a script: the
  outcome of each future call of \<open>session.request\<close>, in order, with the time the call
  takes. When the script is used up the call fails like a lost connection.
  \<open>time.sleep\<close> advances the clock by exactly the time asked for, and everything else
  takes no time. The world logs every request with the time it was issued at and every
  sleep.
\<close>

datatype http_method = GET | POST

record request =
  req_method :: http_method
  req_url :: string
  req_headers :: "(string \<times> string) list"
  req_params :: "(string \<times> json) list"
  req_json :: "json option"

text \<open>
  An outcome of \<open>session.request\<close>. \<open>RequestException\<close>: the call raises a
  \<open>requests.exceptions.RequestException\<close>. \<open>OtherException e\<close>: the call raises an
  error that is not one. \<open>Response status retry_after body\<close>: a response comes back with
  its status code, its \<open>Retry-After\<close> header if any, and its body as \<open>response.json()\<close>
  parses it; the body is \<open>None\<close> when it is not JSON, and \<open>response.json()\<close> then raises
  \<open>requests.exceptions.JSONDecodeError\<close>, a \<open>RequestException\<close>. \<open>RaisingBody status
  retry_after e\<close>: a response whose body makes \<open>response.json()\<close> raise an error that
  is not a \<open>RequestException\<close>, such as \<open>RecursionError\<close> on JSON nested too deep.
\<close>

datatype outcome =
    RequestException
  | OtherException py_error
  | Response nat "string option" "json option"
  | RaisingBody nat "string option" py_error

datatype event = Sent int request | Slept int

record world =
  clock :: int
  script :: "(nat \<times> outcome) list"
  events :: "event list"

text \<open>\<open>time.sleep\<close>, in milliseconds. A negative time raises \<open>ValueError\<close>, and a time
  beyond the range of the clock type of CPython (\<open>2^63 - 1\<close> nanoseconds) raises
  \<open>OverflowError\<close>. (A platform may refuse a sleep of centuries below that range with
  \<open>OSError\<close>; that is not modelled.)\<close>

definition sleep_limit :: int where
  "sleep_limit = 9223372036854"

definition sleep_ok :: "int \<Rightarrow> bool" where
  "sleep_ok ms = (0 \<le> ms \<and> ms \<le> sleep_limit)"

definition time_sleep :: "int \<Rightarrow> world \<Rightarrow> py_error + world" where
  "time_sleep ms w =
     (if ms < 0 then Inl ValueError
      else if sleep_limit < ms then Inl OverflowError
      else Inr (w\<lparr>clock := clock w + ms, events := events w @ [Slept ms]\<rparr>))"

section \<open>The transport client \<open>WildberriesAPI\<close>\<close>

definition BASE_URL :: string where
  "BASE_URL = ''https://suppliers-api.wildberries.ru''"

definition PRICES_BASE_URL :: string where
  "PRICES_BASE_URL = ''https://discounts-prices-api.wildberries.ru''"

record api =
  api_key :: string
  request_delay :: int
  session_headers :: "(string \<times> string) list"

text \<open>\<open>__init__\<close>. The delay is in milliseconds (the default \<open>0.5\<close> is \<open>500\<close>). Of
  the headers of the session only the two that \<open>__init__\<close> sets are kept.\<close>

definition init_api :: "string \<Rightarrow> int \<Rightarrow> api" where
  "init_api key delay =
     (let auth_header = (if startswith key ''Bearer '' then key else key)
      in \<lparr>api_key = key, request_delay = delay,
          session_headers = [(''Authorization'', auth_header),
                             (''Content-Type'', ''application/json'')]\<rparr>)"

text \<open>\<open>self.session.request(method, url, params, json, timeout)\<close>: the request goes out
  with the headers of the session.\<close>

definition request_of ::
  "api \<Rightarrow> http_method \<Rightarrow> string \<Rightarrow> (string \<times> json) list \<Rightarrow> json option \<Rightarrow> request" where
  "request_of a m url params js =
     \<lparr>req_method = m, req_url = url, req_headers = session_headers a,
      req_params = params, req_json = js\<rparr>"

definition session_request ::
  "api \<Rightarrow> http_method \<Rightarrow> string \<Rightarrow> (string \<times> json) list \<Rightarrow> json option \<Rightarrow> world
     \<Rightarrow> outcome \<times> world" where
  "session_request a m url params js w =
     (let w1 = w\<lparr>events := events w @ [Sent (clock w) (request_of a m url params js)]\<rparr>
      in case script w of
           [] \<Rightarrow> (RequestException, w1)
         | (d, out) # rest \<Rightarrow> (out, w1\<lparr>clock := clock w + int d, script := rest\<rparr>))"

text \<open>\<open>_make_request\<close>. \<open>raise_for_status\<close> raises \<open>HTTPError\<close>, a
  \<open>RequestException\<close>, on the statuses 400 to 599. Only a \<open>RequestException\<close> is
  caught. The result \<open>JNull\<close> is Python's \<open>None\<close>.\<close>

definition make_request ::
  "api \<Rightarrow> http_method \<Rightarrow> string \<Rightarrow> (string \<times> json) list \<Rightarrow> json option \<Rightarrow> world
     \<Rightarrow> py_error + (json \<times> world)" where
  "make_request a m endpoint params json_data w =
     (case session_request a m (BASE_URL @ endpoint) params json_data w of
        (RequestException, w1) \<Rightarrow> Inr (JNull, w1)
      | (OtherException e, w1) \<Rightarrow> Inl e
      | (Response status retry_after body, w1) \<Rightarrow>
          if 400 \<le> status \<and> status < 600 then Inr (JNull, w1)
          else (case time_sleep (request_delay a) w1 of
                  Inl e \<Rightarrow> Inl e
                | Inr w2 \<Rightarrow>
                    (case body of
                       None \<Rightarrow> Inr (JNull, w2)
                     | Some result \<Rightarrow> Inr (result, w2)))
      | (RaisingBody status retry_after err, w1) \<Rightarrow>
          if 400 \<le> status \<and> status < 600 then Inr (JNull, w1)
          else (case time_sleep (request_delay a) w1 of
                  Inl e \<Rightarrow> Inl e
                | Inr w2 \<Rightarrow> Inl err))"

section \<open>The fetcher \<open>get_prices_by_articles\<close>\<close>

definition filter_url :: string where
  "filter_url = PRICES_BASE_URL @ ''/api/v2/list/goods/filter''"

record loop_state =
  all_results :: "json list"
  request_count :: nat
  start_time :: int

fun batches_of :: "nat \<Rightarrow> 'a list \<Rightarrow> 'a list list" where
  "batches_of n xs =
     (if n = 0 \<or> xs = [] then [] else take n xs # batches_of n (drop n xs))"

declare batches_of.simps [simp del]

text \<open>Lines 241 to 247: once ten requests are counted, wait for the rest of the six
  seconds and start a new window.\<close>

definition rate_window :: "loop_state \<Rightarrow> world \<Rightarrow> py_error + (loop_state \<times> world)" where
  "rate_window st w =
     (if 10 \<le> request_count st then
        (let elapsed = clock w - start_time st
         in case (if elapsed < 6000 then time_sleep (6000 - elapsed) w else Inr w) of
              Inl e \<Rightarrow> Inl e
            | Inr w1 \<Rightarrow> Inr (st\<lparr>request_count := 0, start_time := clock w1\<rparr>, w1))
      else Inr (st, w))"

text \<open>Lines 267 to 279: the goods a Strategy A response adds to \<open>all_results\<close>.\<close>

definition goods_of_post :: "json \<Rightarrow> py_error + json list" where
  "goods_of_post result =
     (if truthy result then
        (case py_contains ''data'' result of
           Inl e \<Rightarrow> Inl e
         | Inr True \<Rightarrow>
             (case py_getitem result ''data'' of
                Inl e \<Rightarrow> Inl e
              | Inr data \<Rightarrow>
                  (case data of
                     JObj kvs \<Rightarrow>
                       if ''listGoods'' \<in> fst ` set kvs then py_iter (dict_get kvs ''listGoods'')
                       else Inr []
                   | JArr xs \<Rightarrow> Inr xs
                   | _ \<Rightarrow> Inr []))
         | Inr False \<Rightarrow> (case result of JArr xs \<Rightarrow> Inr xs | _ \<Rightarrow> Inr []))
      else Inr [])"

text \<open>\<open>int(response.headers.get("Retry-After", 6))\<close>, in seconds.\<close>

definition retry_after_seconds :: "string option \<Rightarrow> py_error + int" where
  "retry_after_seconds h = (case h of None \<Rightarrow> Inr 6 | Some s \<Rightarrow> py_int s)"

text \<open>\<open>[int(a) for a in batch]\<close>: the first article that \<open>int\<close> does not read raises.\<close>

fun ints_of :: "string list \<Rightarrow> py_error + int list" where
  "ints_of [] = Inr []"
| "ints_of (a # rest) =
     (case py_int a of
        Inl e \<Rightarrow> Inl e
      | Inr n \<Rightarrow> (case ints_of rest of Inl e \<Rightarrow> Inl e | Inr ns \<Rightarrow> Inr (n # ns)))"

text \<open>What follows a response to a batch request, by its status, once a status 200 has
  had its body read: lines 281 to 298.\<close>

definition after_status ::
  "nat \<Rightarrow> string option \<Rightarrow> loop_state \<Rightarrow> world \<Rightarrow> py_error + (loop_state \<times> world)" where
  "after_status status retry_after st w =
     (if status = 400 then Inr (st, w)
      else if status = 429 then
        (case retry_after_seconds retry_after of
           Inl e \<Rightarrow> Inl e
         | Inr secs \<Rightarrow>
             (case time_sleep (1000 * secs) w of
                Inl e \<Rightarrow> Inl e
              | Inr w1 \<Rightarrow> Inr (st, w1)))
      else Inr (st, w))"

text \<open>The body of the loop over the batches, lines 238 to 301. Whatever the outcome,
  the loop then goes on with the next batch: \<open>continue\<close> in a \<open>for\<close> loop moves to the next
  element of the range, and no branch leaves the loop.\<close>

definition post_batch ::
  "api \<Rightarrow> string list \<Rightarrow> loop_state \<Rightarrow> world \<Rightarrow> py_error + (loop_state \<times> world)" where
  "post_batch a batch st w =
     (case ints_of batch of
        Inl e \<Rightarrow> Inl e
      | Inr nm_ids \<Rightarrow>
          (case rate_window st w of
             Inl e \<Rightarrow> Inl e
           | Inr (st1, w1) \<Rightarrow>
               (case session_request a POST filter_url []
                       (Some (JObj [(''nmList'', JArr (map JInt nm_ids))])) w1 of
                  (RequestException, w2) \<Rightarrow> Inr (st1, w2)
                | (OtherException e, w2) \<Rightarrow> Inl e
                | (Response status retry_after body, w2) \<Rightarrow>
                    if status = 200 then
                      (case body of
                         None \<Rightarrow> Inr (st1, w2)
                       | Some result \<Rightarrow>
                           (case goods_of_post result of
                              Inl e \<Rightarrow> Inl e
                            | Inr goods \<Rightarrow>
                                (case time_sleep 600 w2 of
                                   Inl e \<Rightarrow> Inl e
                                 | Inr w3 \<Rightarrow>
                                     Inr (st1\<lparr>all_results := all_results st1 @ goods,
                                              request_count := request_count st1 + 1\<rparr>, w3))))
                    else after_status status retry_after st1 w2
                | (RaisingBody status retry_after err, w2) \<Rightarrow>
                    if status = 200 then Inl err
                    else after_status status retry_after st1 w2)))"

fun post_batches ::
  "api \<Rightarrow> string list list \<Rightarrow> loop_state \<Rightarrow> world \<Rightarrow> py_error + (loop_state \<times> world)" where
  "post_batches a [] st w = Inr (st, w)"
| "post_batches a (batch # rest) st w =
     (case post_batch a batch st w of
        Inl e \<Rightarrow> Inl e
      | Inr (st1, w1) \<Rightarrow> post_batches a rest st1 w1)"

text \<open>Lines 337 to 341: the first non-empty one of \<open>str(vendorCode)\<close>, \<open>str(nmID)\<close>,
  \<open>str(nmId)\<close>, a missing field counting as the empty string.\<close>

definition str_or :: "string \<Rightarrow> string \<Rightarrow> string" where
  "str_or a b = (if a \<noteq> [] then a else b)"

definition field_str :: "(string \<times> json) list \<Rightarrow> string \<Rightarrow> string" where
  "field_str kvs key = py_str (dict_get_default kvs key (JStr ''''))"

definition good_article :: "(string \<times> json) list \<Rightarrow> string" where
  "good_article kvs =
     str_or (str_or (field_str kvs ''vendorCode'') (field_str kvs ''nmID''))
            (field_str kvs ''nmId'')"

text \<open>Lines 335 to 343: the loop that keeps the goods whose article was asked for.\<close>

fun filter_goods :: "string list \<Rightarrow> json list \<Rightarrow> json list \<Rightarrow> py_error + json list" where
  "filter_goods article_set [] filtered_goods = Inr filtered_goods"
| "filter_goods article_set (good # rest) filtered_goods =
     (case good of
        JObj kvs \<Rightarrow>
          if good_article kvs \<in> set article_set
          then filter_goods article_set rest (filtered_goods @ [good])
          else filter_goods article_set rest filtered_goods
      | _ \<Rightarrow> Inl AttributeError)"

text \<open>Lines 324 to 349: the goods the Strategy B response adds to \<open>all_results\<close>.\<close>

definition goods_of_get :: "string list \<Rightarrow> json \<Rightarrow> py_error + json list" where
  "goods_of_get cleaned_articles result =
     (if truthy result then
        (case py_contains ''data'' result of
           Inl e \<Rightarrow> Inl e
         | Inr True \<Rightarrow>
             (case py_getitem result ''data'' of
                Inl e \<Rightarrow> Inl e
              | Inr data \<Rightarrow>
                  (case data of
                     JObj kvs \<Rightarrow>
                       if ''listGoods'' \<in> fst ` set kvs then
                         (case py_iter (dict_get kvs ''listGoods'') of
                            Inl e \<Rightarrow> Inl e
                          | Inr all_goods \<Rightarrow> filter_goods cleaned_articles all_goods [])
                       else Inr []
                   | JArr xs \<Rightarrow> Inr xs
                   | _ \<Rightarrow> Inr []))
         | Inr False \<Rightarrow> Inr [])
      else Inr [])"

text \<open>Lines 311 to 356: one \<open>GET\<close> of the whole listing.\<close>

definition strategy_b :: "api \<Rightarrow> string list \<Rightarrow> world \<Rightarrow> py_error + (json list \<times> world)" where
  "strategy_b a cleaned_articles w =
     (case session_request a GET filter_url [(''limit'', JInt 1000), (''offset'', JInt 0)] None w of
        (RequestException, w1) \<Rightarrow> Inr ([], w1)
      | (OtherException e, w1) \<Rightarrow> Inl e
      | (Response status retry_after body, w1) \<Rightarrow>
          if status = 200 then
            (case body of
               None \<Rightarrow> Inr ([], w1)
             | Some result \<Rightarrow>
                 (case goods_of_get cleaned_articles result of
                    Inl e \<Rightarrow> Inl e
                  | Inr goods \<Rightarrow> Inr (goods, w1)))
          else Inr ([], w1)
      | (RaisingBody status retry_after err, w1) \<Rightarrow>
          if status = 200 then Inl err else Inr ([], w1))"

text \<open>Lines 220 to 301: Strategy A, the \<open>POST\<close> requests over the numeric articles.\<close>

definition strategy_a :: "api \<Rightarrow> string list \<Rightarrow> world \<Rightarrow> py_error + (loop_state \<times> world)" where
  "strategy_a a cleaned_articles w =
     (let st0 = \<lparr>all_results = [], request_count = 0, start_time = clock w\<rparr>;
          numeric_articles = filter isdigit cleaned_articles
      in if numeric_articles \<noteq> [] then post_batches a (batches_of 100 numeric_articles) st0 w
         else Inr (st0, w))"

text \<open>The whole function. The result \<open>None\<close> is Python's \<open>None\<close>.\<close>

definition get_prices_by_articles ::
  "api \<Rightarrow> string list \<Rightarrow> world \<Rightarrow> py_error + (json list option \<times> world)" where
  "get_prices_by_articles a articles w =
     (let cleaned_articles = map extract_article_from_url articles
      in case strategy_a a cleaned_articles w of
           Inl e \<Rightarrow> Inl e
         | Inr (st, w1) \<Rightarrow>
             if all_results st \<noteq> [] then Inr (Some (all_results st), w1)
             else (case strategy_b a cleaned_articles w1 of
                     Inl e \<Rightarrow> Inl e
                   | Inr (goods, w2) \<Rightarrow> Inr (if goods \<noteq> [] then Some goods else None, w2)))"

text \<open>What a call returns, without the world it leaves.\<close>

definition returned :: "py_error + ('a \<times> world) \<Rightarrow> py_error + 'a" where
  "returned r = (case r of Inl e \<Rightarrow> Inl e | Inr (x, w) \<Rightarrow> Inr x)"

text \<open>The specification's filter of Strategy B, in its own words: a row matches when
  its vendor code or its marketplace id, in either spelling, is one of the requested
  identifiers.\<close>

definition spec_field_matches :: "string list \<Rightarrow> (string \<times> json) list \<Rightarrow> string \<Rightarrow> bool" where
  "spec_field_matches requested kvs key =
     (case map_of kvs key of None \<Rightarrow> False | Some v \<Rightarrow> py_str v \<in> set requested)"

definition spec_row_matches :: "string list \<Rightarrow> (string \<times> json) list \<Rightarrow> bool" where
  "spec_row_matches requested kvs =
     (spec_field_matches requested kvs ''vendorCode'' \<or>
      spec_field_matches requested kvs ''nmID'' \<or>
      spec_field_matches requested kvs ''nmId'')"

text \<open>The request of Strategy B.\<close>

definition listing_request :: "api \<Rightarrow> request" where
  "listing_request a =
     request_of a GET filter_url [(''limit'', JInt 1000), (''offset'', JInt 0)] None"

text \<open>A world at time zero with the given script, and the times at which a run issued
  its requests.\<close>

definition fresh_world :: "(nat \<times> outcome) list \<Rightarrow> world" where
  "fresh_world sc = \<lparr>clock = 0, script = sc, events = []\<rparr>"

fun sent_times :: "event list \<Rightarrow> int list" where
  "sent_times [] = []"
| "sent_times (Sent t r # es) = t # sent_times es"
| "sent_times (Slept d # es) = sent_times es"

definition request_times :: "py_error + ('a \<times> world) \<Rightarrow> int list" where
  "request_times r = (case r of Inl e \<Rightarrow> [] | Inr (x, w) \<Rightarrow> sent_times (events w))"

section \<open>The orchestrator \<open>WildberriesParser\<close>\<close>

record parser =
  cabinet_name :: string
  cabinet_id :: string
  parser_api :: api

definition init_parser :: "string \<Rightarrow> string \<Rightarrow> string \<Rightarrow> int \<Rightarrow> parser" where
  "init_parser key name cid delay =
     \<lparr>cabinet_name = name, cabinet_id = cid, parser_api = init_api key delay\<rparr>"

text \<open>An output row is a dict, in the order its keys are written.\<close>

type_synonym row = "(string \<times> json) list"



text \<open>Lines 94 to 114: the row of one size of a price item.\<close>

definition size_row ::
  "parser \<Rightarrow> (string \<times> json) list \<Rightarrow> json \<Rightarrow> json \<Rightarrow> (string \<times> json) list \<Rightarrow> row" where
  "size_row p price_item nm_id vendor_code sz =
     [(''cabinet'', JStr (cabinet_name p)),
      (''cabinet_id'', JStr (cabinet_id p)),
      (''nm_id'', nm_id),
      (''vendor_code'', vendor_code),
      (''size_id'', dict_get sz ''sizeID''),
      (''size_name'', dict_get_default sz ''techSizeName'' (JStr '''')),
      (''base_price'', dict_get sz ''price''),
      (''discounted_price'', dict_get sz ''discountedPrice''),
      (''club_discounted_price'', dict_get sz ''clubDiscountedPrice''),
      (''discount_percent'', dict_get price_item ''discount''),
      (''club_discount_percent'', dict_get price_item ''clubDiscount''),
      (''currency'', dict_get_default price_item ''currencyIsoCode4217'' (JStr ''RUB'')),
      (''editable_size_price'', dict_get_default price_item ''editableSizePrice'' (JBool False))]"

text \<open>Lines 117 to 135: the row of a price item without sizes.\<close>

definition item_row :: "parser \<Rightarrow> (string \<times> json) list \<Rightarrow> json \<Rightarrow> json \<Rightarrow> row" where
  "item_row p price_item nm_id vendor_code =
     [(''cabinet'', JStr (cabinet_name p)),
      (''cabinet_id'', JStr (cabinet_id p)),
      (''nm_id'', nm_id),
      (''vendor_code'', vendor_code),
      (''size_id'', JNull),
      (''size_name'', JNull),
      (''base_price'', dict_get price_item ''price''),
      (''discounted_price'', dict_get price_item ''discountedPrice''),
      (''club_discounted_price'', dict_get price_item ''clubDiscountedPrice''),
      (''discount_percent'', dict_get price_item ''discount''),
      (''club_discount_percent'', dict_get price_item ''clubDiscount''),
      (''currency'', dict_get_default price_item ''currencyIsoCode4217'' (JStr ''RUB'')),
      (''editable_size_price'', dict_get_default price_item ''editableSizePrice'' (JBool False))]"

text \<open>Lines 93 to 114: the loop over the sizes; \<open>size.get\<close> needs a dict.\<close>

fun size_rows ::
  "parser \<Rightarrow> (string \<times> json) list \<Rightarrow> json \<Rightarrow> json \<Rightarrow> json list \<Rightarrow> row list
     \<Rightarrow> py_error + row list" where
  "size_rows p price_item nm_id vendor_code [] results = Inr results"
| "size_rows p price_item nm_id vendor_code (sz # rest) results =
     (case sz of
        JObj s \<Rightarrow>
          size_rows p price_item nm_id vendor_code rest
            (results @ [size_row p price_item nm_id vendor_code s])
      | _ \<Rightarrow> Inl AttributeError)"

text \<open>Lines 84 to 135: the body of the loop over the price items. It appends the rows
  of one item to the results.\<close>

definition price_item_rows :: "parser \<Rightarrow> json \<Rightarrow> row list \<Rightarrow> py_error + row list" where
  "price_item_rows p price_item results =
     (case price_item of
        JObj item \<Rightarrow>
          (let vendor_code = py_or (dict_get item ''vendorCode'') (dict_get item ''vendor_code'');
               nm_id = py_or (dict_get item ''nmID'') (dict_get item ''nmId'');
               sizes = dict_get_default item ''sizes'' (JArr [])
           in if truthy sizes then
                (case py_iter sizes of
                   Inl e \<Rightarrow> Inl e
                 | Inr ss \<Rightarrow> size_rows p item nm_id vendor_code ss results)
              else Inr (results @ [item_row p item nm_id vendor_code]))
      | _ \<Rightarrow> Inl AttributeError)"






text \<open>The reading of an item for the statement of its rows, in the specification's
  words. A field is absent (\<open>None\<close>) when the dict does not have it. The product
  identifier under two spellings of its name is the field under the first spelling,
  unless that is missing or empty (\<open>None\<close>, \<open>False\<close>, zero, the empty string, list or
  dict); then it is the field under the second spelling.\<close>

definition field_or_none :: "(string \<times> json) list \<Rightarrow> string \<Rightarrow> json" where
  "field_or_none kvs key = (case map_of kvs key of None \<Rightarrow> JNull | Some v \<Rightarrow> v)"

definition item_identifier :: "(string \<times> json) list \<Rightarrow> string \<Rightarrow> string \<Rightarrow> json" where
  "item_identifier item key1 key2 =
     (case map_of item key1 of
        None \<Rightarrow> field_or_none item key2
      | Some v \<Rightarrow>
          if v \<in> {JNull, JBool False, JInt 0, JStr [], JArr [], JObj []}
          then field_or_none item key2 else v)"

section \<open>The identifier normalisation\<close>

lemmas string_defs = startswith_def strip_def is_space_def is_decimal_def is_digit_def
  isdigit_def codepoint_def utf8_len_def cont_def in_ranges_def space_ranges_def
  decimal_value_def py_int_def is_int_space_def match_catalog_def match_number_def
  extract_article_from_url_def Let_def

text \<open>
  C9 fails on the code. The comment of the source calls the fallback pattern simply a
  number in the URL, and the specification reads it so: the first run of at least six
  digits. The pattern \<open>/(\d{6,})/\<close> wants a slash on both sides of the run. In the URL
  below the digits end the string: the first run of six digits is \<open>115224606\<close>, and
  the function returns the URL itself.
\<close>

theorem extract_article_misses_number_without_slash:
  "spec_extract_article ''https://www.wildberries.ru/catalog/115224606'' = ''115224606'' \<and>
   extract_article_from_url ''https://www.wildberries.ru/catalog/115224606''
     = ''https://www.wildberries.ru/catalog/115224606''"
  by (simp add: spec_extract_article_def string_defs)

section \<open>Properties of the transport client\<close>

text \<open>
  C10. The \<open>Authorization\<close> header of the session is the key as given, with or without a
  \<open>Bearer\<close> prefix, and every request the session sends carries exactly it.
\<close>

theorem authorization_header_is_raw_key:
  "map_of (session_headers (init_api key delay)) ''Authorization'' = Some key \<and>
   events (snd (session_request (init_api key delay) m url params js w)) =
     events w @ [Sent (clock w)
       \<lparr>req_method = m, req_url = url,
        req_headers = [(''Authorization'', key), (''Content-Type'', ''application/json'')],
        req_params = params, req_json = js\<rparr>]"
  by (simp add: init_api_def session_request_def request_of_def Let_def
      split: list.splits prod.splits)

text \<open>
  C8, as amended. After a response whose status is not an HTTP error \<open>_make_request\<close>
  sleeps for the configured delay and returns the parsed body (\<open>None\<close> when the body is
  not JSON). After a response with an error status (400 to 599), and after a transport
  failure (a \<open>RequestException\<close>), it returns \<open>None\<close> at once, without the sleep. Only
  a \<open>RequestException\<close> is caught: the method raises to the caller exactly when the
  call itself raises another error, or, after a response that is not an HTTP error, when
  \<open>time.sleep\<close> refuses the delay or the parsing of the body raises another error.
\<close>

theorem make_request_sleeps_after_success_only:
  "((\<exists>e. make_request a m ep ps js w = Inl e) \<longleftrightarrow>
      (\<exists>d rest. (\<exists>e. script w = (d, OtherException e) # rest) \<or>
         (\<exists>st h. \<not> (400 \<le> st \<and> st < 600) \<and>
            ((\<exists>e. script w = (d, RaisingBody st h e) # rest) \<or>
             (\<exists>body. script w = (d, Response st h body) # rest) \<and>
             \<not> sleep_ok (request_delay a))))) \<and>
   (sleep_ok (request_delay a) \<and> script w = (d, Response st h body) # rest \<and>
      \<not> (400 \<le> st \<and> st < 600) \<longrightarrow>
      make_request a m ep ps js w =
        Inr (case body of None \<Rightarrow> JNull | Some result \<Rightarrow> result,
             w\<lparr>clock := clock w + int d + request_delay a, script := rest,
               events := events w @ [Sent (clock w) (request_of a m (BASE_URL @ ep) ps js),
                                     Slept (request_delay a)]\<rparr>)) \<and>
   (script w = (d, Response st h body) # rest \<and> 400 \<le> st \<and> st < 600 \<longrightarrow>
      make_request a m ep ps js w =
        Inr (JNull,
             w\<lparr>clock := clock w + int d, script := rest,
               events := events w @ [Sent (clock w) (request_of a m (BASE_URL @ ep) ps js)]\<rparr>)) \<and>
   (script w = (d, RequestException) # rest \<longrightarrow>
      make_request a m ep ps js w =
        Inr (JNull,
             w\<lparr>clock := clock w + int d, script := rest,
               events := events w @ [Sent (clock w) (request_of a m (BASE_URL @ ep) ps js)]\<rparr>)) \<and>
   (script w = [] \<longrightarrow>
      make_request a m ep ps js w =
        Inr (JNull,
             w\<lparr>events := events w @ [Sent (clock w) (request_of a m (BASE_URL @ ep) ps js)]\<rparr>)) \<and>
   (script w = (d, RaisingBody st h err) # rest \<and> 400 \<le> st \<and> st < 600 \<longrightarrow>
      make_request a m ep ps js w =
        Inr (JNull,
             w\<lparr>clock := clock w + int d, script := rest,
               events := events w @ [Sent (clock w) (request_of a m (BASE_URL @ ep) ps js)]\<rparr>)) \<and>
   (sleep_ok (request_delay a) \<and> script w = (d, RaisingBody st h err) # rest \<and>
      \<not> (400 \<le> st \<and> st < 600) \<longrightarrow>
      make_request a m ep ps js w = Inl err) \<and>
   (script w = (d, OtherException err) # rest \<longrightarrow> make_request a m ep ps js w = Inl err)"
proof (intro conjI)
  show "(\<exists>e. make_request a m ep ps js w = Inl e) \<longleftrightarrow>
      (\<exists>d rest. (\<exists>e. script w = (d, OtherException e) # rest) \<or>
         (\<exists>st h. \<not> (400 \<le> st \<and> st < 600) \<and>
            ((\<exists>e. script w = (d, RaisingBody st h e) # rest) \<or>
             (\<exists>body. script w = (d, Response st h body) # rest) \<and>
             \<not> sleep_ok (request_delay a))))"
  proof (cases "script w")
    case Nil
    then show ?thesis
      by (simp add: make_request_def session_request_def Let_def)
  next
    case (Cons x rest)
    obtain d out where x: "x = (d, out)" by (cases x)
    show ?thesis
      unfolding Cons x
      by (cases out)
         (auto simp add: make_request_def session_request_def time_sleep_def sleep_ok_def
            Let_def Cons x split: option.splits)
  qed
qed (auto simp add: make_request_def session_request_def time_sleep_def sleep_ok_def Let_def
      split: option.splits)

theorem make_request_sleeps_after_success_only_witness:
  "make_request (init_api ''key'' 500) GET ''/x'' [] None
     \<lparr>clock = 0, script = [(100, Response 200 None (Some (JInt 7)))], events = []\<rparr>
   = Inr (JInt 7,
       \<lparr>clock = 600, script = [],
        events = [Sent 0 (request_of (init_api ''key'' 500) GET (BASE_URL @ ''/x'') [] None),
                  Slept 500]\<rparr>) \<and>
   make_request (init_api ''key'' 500) GET ''/x'' [] None
     \<lparr>clock = 0, script = [(100, Response 404 None None)], events = []\<rparr>
   = Inr (JNull,
       \<lparr>clock = 100, script = [],
        events = [Sent 0 (request_of (init_api ''key'' 500) GET (BASE_URL @ ''/x'') [] None)]\<rparr>) \<and>
   make_request (init_api ''key'' 500) GET ''/x'' [] None
     \<lparr>clock = 0, script = [(100, RaisingBody 200 None RecursionError)], events = []\<rparr>
   = Inl RecursionError"
  using make_request_sleeps_after_success_only
    [of "init_api ''key'' 500" GET "''/x''" "[]" None
        "\<lparr>clock = 0, script = [(100, Response 200 None (Some (JInt 7)))], events = []\<rparr>"
        100 200 None "Some (JInt 7)" "[]"]
    make_request_sleeps_after_success_only
    [of "init_api ''key'' 500" GET "''/x''" "[]" None
        "\<lparr>clock = 0, script = [(100, Response 404 None None)], events = []\<rparr>"
        100 404 None None "[]"]
    make_request_sleeps_after_success_only
    [of "init_api ''key'' 500" GET "''/x''" "[]" None
        "\<lparr>clock = 0, script = [(100, RaisingBody 200 None RecursionError)], events = []\<rparr>"
        100 200 None _ "[]" RecursionError]
  by (simp add: init_api_def sleep_ok_def sleep_limit_def)

text \<open>
  C8 as the specification words it does not hold: after a response with status 500 the
  method returns \<open>None\<close> and the log of the world shows the request and no sleep.
\<close>

theorem make_request_no_sleep_on_http_error_counterexample:
  "make_request (init_api ''key'' 500) GET ''/content/v1/cards/cursor/list'' [] None
     \<lparr>clock = 0, script = [(100, Response 500 None (Some (JObj [])))], events = []\<rparr>
   = Inr (JNull,
       \<lparr>clock = 100, script = [],
        events = [Sent 0 \<lparr>req_method = GET,
                          req_url = ''https://suppliers-api.wildberries.ru/content/v1/cards/cursor/list'',
                          req_headers = [(''Authorization'', ''key''),
                                         (''Content-Type'', ''application/json'')],
                          req_params = [], req_json = None\<rparr>]\<rparr>)"
  by (simp add: make_request_def session_request_def request_of_def init_api_def BASE_URL_def)

section \<open>Properties of the fetcher\<close>

lemmas fetch_defs = get_prices_by_articles_def strategy_a_def strategy_b_def post_batch_def
  after_status_def rate_window_def session_request_def request_of_def listing_request_def
  time_sleep_def sleep_limit_def goods_of_post_def goods_of_get_def retry_after_seconds_def
  returned_def request_times_def fresh_world_def
  good_article_def field_str_def str_or_def dict_get_default_def dict_get_def
  init_api_def filter_url_def PRICES_BASE_URL_def batches_of.simps string_defs

lemma ints_of_replicate:
  "py_int a = Inr v \<Longrightarrow> ints_of (replicate n a) = Inr (replicate n v)"
  by (induction n) simp_all

subsection \<open>Pacing\<close>

text \<open>
  C2 fails on the code. The 600 ms sleep and the count of the window are in the branch of
  status 200 only. With 101 numeric articles and a server that answers 500 after 100 ms,
  the second batch goes out 100 ms after the first, and the listing request 100 ms after
  that. With 1001 articles, eleven batch requests and the listing request go out within
  1.1 seconds.
\<close>

theorem requests_after_error_status_not_spaced:
  "get_prices_by_articles (init_api ''key'' 500) (replicate 101 ''115224606'')
      (fresh_world [(100, Response 500 None None), (100, Response 500 None None),
                    (100, Response 500 None None)])
     = Inr (None, \<lparr>clock = 300, script = [],
         events = [Sent 0 (request_of (init_api ''key'' 500) POST filter_url []
                             (Some (JObj [(''nmList'', JArr (replicate 100 (JInt 115224606)))]))),
                   Sent 100 (request_of (init_api ''key'' 500) POST filter_url []
                             (Some (JObj [(''nmList'', JArr [JInt 115224606])]))),
                   Sent 200 (listing_request (init_api ''key'' 500))]\<rparr>) \<and>
   request_times (get_prices_by_articles (init_api ''key'' 500) (replicate 1001 ''115224606'')
      (fresh_world [(100, Response 500 None None), (100, Response 500 None None),
                    (100, Response 500 None None), (100, Response 500 None None),
                    (100, Response 500 None None), (100, Response 500 None None),
                    (100, Response 500 None None), (100, Response 500 None None),
                    (100, Response 500 None None), (100, Response 500 None None),
                    (100, Response 500 None None), (100, Response 500 None None)]))
     = [0, 100, 200, 300, 400, 500, 600, 700, 800, 900, 1000, 1100]"
  by (simp add: fetch_defs ints_of_replicate)

subsection \<open>Status 429\<close>

text \<open>
  C3 fails on the code. After a 429 without \<open>Retry-After\<close> the fetcher sleeps six
  seconds, and \<open>continue\<close> then moves the \<open>for\<close> loop to the next batch: the batch is
  not sent again. With one article the only \<open>POST\<close> is followed by the sleep and by the
  listing request of Strategy B.
\<close>

theorem rate_limited_batch_not_retried:
  "get_prices_by_articles (init_api ''key'' 500) [''123456'']
      (fresh_world [(100, Response 429 None None), (100, Response 200 None (Some (JArr [])))])
     = Inr (None, \<lparr>clock = 6200, script = [],
         events = [Sent 0 (request_of (init_api ''key'' 500) POST filter_url []
                             (Some (JObj [(''nmList'', JArr [JInt 123456])]))),
                   Slept 6000,
                   Sent 6100 (listing_request (init_api ''key'' 500))]\<rparr>)"
  by (simp add: fetch_defs)

subsection \<open>The envelopes of a response\<close>

text \<open>
  C6 fails on the code. Strategy B is asked for \<open>abc\<close> and the listing holds the goods
  \<open>abc\<close> and \<open>zzz\<close>. Under \<open>data.listGoods\<close> the listing is filtered; as a list under
  \<open>data\<close> it is returned whole, unfiltered; as a bare list it is dropped and the fetcher
  returns \<open>None\<close>. Strategy A takes all three shapes.
\<close>

theorem strategy_b_envelopes_differ:
  "returned (get_prices_by_articles (init_api ''key'' 500) [''abc'']
      (fresh_world [(100, Response 200 None
          (Some (JObj [(''data'', JObj [(''listGoods'', JArr [
              JObj [(''vendorCode'', JStr ''abc''), (''nmID'', JInt 5)],
              JObj [(''vendorCode'', JStr ''zzz''), (''nmID'', JInt 6)]])])])))]))
     = Inr (Some [JObj [(''vendorCode'', JStr ''abc''), (''nmID'', JInt 5)]]) \<and>
   returned (get_prices_by_articles (init_api ''key'' 500) [''abc'']
      (fresh_world [(100, Response 200 None
          (Some (JObj [(''data'', JArr [
              JObj [(''vendorCode'', JStr ''abc''), (''nmID'', JInt 5)],
              JObj [(''vendorCode'', JStr ''zzz''), (''nmID'', JInt 6)]])])))]))
     = Inr (Some [JObj [(''vendorCode'', JStr ''abc''), (''nmID'', JInt 5)],
                  JObj [(''vendorCode'', JStr ''zzz''), (''nmID'', JInt 6)]]) \<and>
   returned (get_prices_by_articles (init_api ''key'' 500) [''abc'']
      (fresh_world [(100, Response 200 None
          (Some (JArr [
              JObj [(''vendorCode'', JStr ''abc''), (''nmID'', JInt 5)],
              JObj [(''vendorCode'', JStr ''zzz''), (''nmID'', JInt 6)]])))]))
     = Inr None"
  by (simp add: fetch_defs)

subsection \<open>The filter of Strategy B\<close>

text \<open>
  C7 fails on the code. The source says of its filter that it checks the different fields
  for the article, and the specification reads it so: a row is kept when its vendor code
  or its marketplace id was requested. The code builds one string, the first non-empty
  one of \<open>str(vendorCode)\<close>, \<open>str(nmID)\<close>, \<open>str(nmId)\<close>, and tests that string
  alone. The row below has the requested marketplace id 123 and a vendor code that was
  not requested: it matches in the specification's sense, Strategy B leaves it out, and
  the fetcher returns \<open>None\<close>.
\<close>

theorem strategy_b_drops_row_matching_by_nm_id:
  "spec_row_matches [''123''] [(''vendorCode'', JStr ''shirt''), (''nmID'', JInt 123)] \<and>
   returned (get_prices_by_articles (init_api ''key'' 500) [''123'']
      (fresh_world [(100, Response 400 None None),
                    (100, Response 200 None
          (Some (JObj [(''data'', JObj [(''listGoods'', JArr [
              JObj [(''vendorCode'', JStr ''shirt''), (''nmID'', JInt 123)]])])])))]))
     = Inr None"
  by (simp add: fetch_defs spec_row_matches_def spec_field_matches_def str_int_def digit_char_def)

subsection \<open>Status 400\<close>

text \<open>
  C4 fails on the code. The branch of status 400 ends with the comment that the flow goes
  on to the listing of the goods, but nothing leaves the loop: the next batch is still
  sent. Below, the first of two batches is answered with 400 and the second with a
  record: two \<open>POST\<close> requests go out, and since results have come in the function
  returns them without attempting Strategy B, although no batch had succeeded before the
  400.
\<close>

theorem bad_request_does_not_stop_strategy_a:
  "get_prices_by_articles (init_api ''key'' 500) (replicate 101 ''115224606'')
      (fresh_world [(100, Response 400 None None),
                    (100, Response 200 None (Some (JArr [JObj [(''nmID'', JInt 115224606)]])))])
     = Inr (Some [JObj [(''nmID'', JInt 115224606)]], \<lparr>clock = 800, script = [],
         events = [Sent 0 (request_of (init_api ''key'' 500) POST filter_url []
                             (Some (JObj [(''nmList'', JArr (replicate 100 (JInt 115224606)))]))),
                   Sent 100 (request_of (init_api ''key'' 500) POST filter_url []
                             (Some (JObj [(''nmList'', JArr [JInt 115224606])]))),
                   Slept 600]\<rparr>)"
  by (simp add: fetch_defs ints_of_replicate)

section \<open>Properties of the orchestrator\<close>


subsection \<open>The rows of one price item\<close>

lemma size_rows_dicts:
  "size_rows p item nm vc (map JObj ds) results =
     Inr (results @ map (size_row p item nm vc) ds)"
  by (induction ds arbitrary: results) simp_all

lemma py_or_item_identifier:
  "py_or (dict_get item key1) (dict_get item key2) = item_identifier item key1 key2"
proof (cases "map_of item key1")
  case None
  then show ?thesis
    by (simp add: py_or_def dict_get_def dict_get_default_def item_identifier_def
        field_or_none_def split: option.splits)
next
  case (Some v)
  then show ?thesis
    by (cases v)
       (auto simp add: py_or_def dict_get_def dict_get_default_def item_identifier_def
          field_or_none_def split: option.splits)
qed

lemma dict_get_field_or_none: "dict_get kvs key = field_or_none kvs key"
  by (simp add: dict_get_def dict_get_default_def field_or_none_def split: option.splits)

text \<open>
  C5. A price item whose \<open>sizes\<close> is a non-empty list of \<open>k\<close> size entries (dicts) adds
  exactly \<open>k\<close> rows; each carries the \<open>nm_id\<close> and \<open>vendor_code\<close> of the item and the
  size id, size name and the three prices of its own size entry. A price item without
  \<open>sizes\<close> adds exactly one row, with \<open>size_id\<close> and \<open>size_name\<close> \<open>None\<close> and the
  three prices read from the item itself.
\<close>

theorem price_item_rows_per_size:
  "(map_of item ''sizes'' = Some (JArr (map JObj ds)) \<and> ds \<noteq> [] \<longrightarrow>
      (\<exists>rows. price_item_rows p (JObj item) results = Inr (results @ rows) \<and>
         length rows = length ds \<and>
         (\<forall>i<length ds.
            map_of (rows ! i) ''nm_id'' = Some (item_identifier item ''nmID'' ''nmId'') \<and>
            map_of (rows ! i) ''vendor_code'' =
              Some (item_identifier item ''vendorCode'' ''vendor_code'') \<and>
            map_of (rows ! i) ''size_id'' = Some (field_or_none (ds ! i) ''sizeID'') \<and>
            map_of (rows ! i) ''size_name'' =
              Some (case map_of (ds ! i) ''techSizeName'' of None \<Rightarrow> JStr '''' | Some v \<Rightarrow> v) \<and>
            map_of (rows ! i) ''base_price'' = Some (field_or_none (ds ! i) ''price'') \<and>
            map_of (rows ! i) ''discounted_price'' =
              Some (field_or_none (ds ! i) ''discountedPrice'') \<and>
            map_of (rows ! i) ''club_discounted_price'' =
              Some (field_or_none (ds ! i) ''clubDiscountedPrice'')))) \<and>
   (map_of item ''sizes'' = None \<longrightarrow>
      (\<exists>row. price_item_rows p (JObj item) results = Inr (results @ [row]) \<and>
         map_of row ''nm_id'' = Some (item_identifier item ''nmID'' ''nmId'') \<and>
         map_of row ''vendor_code'' =
           Some (item_identifier item ''vendorCode'' ''vendor_code'') \<and>
         map_of row ''size_id'' = Some JNull \<and>
         map_of row ''size_name'' = Some JNull \<and>
         map_of row ''base_price'' = Some (field_or_none item ''price'') \<and>
         map_of row ''discounted_price'' = Some (field_or_none item ''discountedPrice'') \<and>
         map_of row ''club_discounted_price'' =
           Some (field_or_none item ''clubDiscountedPrice'')))"
proof (intro conjI impI)
  assume h: "map_of item ''sizes'' = Some (JArr (map JObj ds)) \<and> ds \<noteq> []"
  let ?nm = "item_identifier item ''nmID'' ''nmId''"
  let ?vc = "item_identifier item ''vendorCode'' ''vendor_code''"
  let ?rows = "map (size_row p item ?nm ?vc) ds"
  have sz: "dict_get_default item ''sizes'' (JArr []) = JArr (map JObj ds)"
    using h by (simp add: dict_get_default_def)
  have r: "price_item_rows p (JObj item) results = Inr (results @ ?rows)"
    using h
    by (simp add: price_item_rows_def sz Let_def size_rows_dicts py_or_item_identifier)
  have f: "\<And>s. map_of (size_row p item ?nm ?vc s) ''nm_id'' = Some ?nm \<and>
      map_of (size_row p item ?nm ?vc s) ''vendor_code'' = Some ?vc \<and>
      map_of (size_row p item ?nm ?vc s) ''size_id'' = Some (field_or_none s ''sizeID'') \<and>
      map_of (size_row p item ?nm ?vc s) ''size_name'' =
        Some (case map_of s ''techSizeName'' of None \<Rightarrow> JStr '''' | Some v \<Rightarrow> v) \<and>
      map_of (size_row p item ?nm ?vc s) ''base_price'' = Some (field_or_none s ''price'') \<and>
      map_of (size_row p item ?nm ?vc s) ''discounted_price'' =
        Some (field_or_none s ''discountedPrice'') \<and>
      map_of (size_row p item ?nm ?vc s) ''club_discounted_price'' =
        Some (field_or_none s ''clubDiscountedPrice'')"
    by (simp add: size_row_def dict_get_field_or_none dict_get_default_def
        split: option.splits)
  show "\<exists>rows. price_item_rows p (JObj item) results = Inr (results @ rows) \<and>
         length rows = length ds \<and>
         (\<forall>i<length ds.
            map_of (rows ! i) ''nm_id'' = Some ?nm \<and>
            map_of (rows ! i) ''vendor_code'' = Some ?vc \<and>
            map_of (rows ! i) ''size_id'' = Some (field_or_none (ds ! i) ''sizeID'') \<and>
            map_of (rows ! i) ''size_name'' =
              Some (case map_of (ds ! i) ''techSizeName'' of None \<Rightarrow> JStr '''' | Some v \<Rightarrow> v) \<and>
            map_of (rows ! i) ''base_price'' = Some (field_or_none (ds ! i) ''price'') \<and>
            map_of (rows ! i) ''discounted_price'' =
              Some (field_or_none (ds ! i) ''discountedPrice'') \<and>
            map_of (rows ! i) ''club_discounted_price'' =
              Some (field_or_none (ds ! i) ''clubDiscountedPrice''))"
    using r f by (intro exI[of _ ?rows]) simp
next
  assume h: "map_of item ''sizes'' = None"
  let ?nm = "item_identifier item ''nmID'' ''nmId''"
  let ?vc = "item_identifier item ''vendorCode'' ''vendor_code''"
  have sz: "dict_get_default item ''sizes'' (JArr []) = JArr []"
    using h by (simp add: dict_get_default_def)
  have r: "price_item_rows p (JObj item) results = Inr (results @ [item_row p item ?nm ?vc])"
    by (simp add: price_item_rows_def sz Let_def py_or_item_identifier)
  show "\<exists>row. price_item_rows p (JObj item) results = Inr (results @ [row]) \<and>
         map_of row ''nm_id'' = Some ?nm \<and>
         map_of row ''vendor_code'' = Some ?vc \<and>
         map_of row ''size_id'' = Some JNull \<and>
         map_of row ''size_name'' = Some JNull \<and>
         map_of row ''base_price'' = Some (field_or_none item ''price'') \<and>
         map_of row ''discounted_price'' = Some (field_or_none item ''discountedPrice'') \<and>
         map_of row ''club_discounted_price'' = Some (field_or_none item ''clubDiscountedPrice'')"
    using r
    by (intro exI[of _ "item_row p item ?nm ?vc"])
       (simp add: item_row_def dict_get_field_or_none)
qed

theorem price_item_rows_per_size_witness:
  "(\<exists>r1 r2. price_item_rows (init_parser ''key'' ''cab'' ''7'' 500)
        (JObj [(''nmId'', JInt 111), (''vendorCode'', JStr ''shirt''),
               (''sizes'', JArr [JObj [(''sizeID'', JInt 1), (''price'', JInt 100)],
                                 JObj [(''sizeID'', JInt 2), (''price'', JInt 120),
                                       (''techSizeName'', JStr ''XL'')]])]) []
        = Inr [r1, r2] \<and>
        map_of r1 ''nm_id'' = Some (JInt 111) \<and> map_of r2 ''nm_id'' = Some (JInt 111) \<and>
        map_of r1 ''vendor_code'' = Some (JStr ''shirt'') \<and>
        map_of r2 ''vendor_code'' = Some (JStr ''shirt'') \<and>
        map_of r1 ''size_id'' = Some (JInt 1) \<and> map_of r2 ''size_id'' = Some (JInt 2) \<and>
        map_of r1 ''size_name'' = Some (JStr '''') \<and> map_of r2 ''size_name'' = Some (JStr ''XL'') \<and>
        map_of r1 ''base_price'' = Some (JInt 100) \<and> map_of r2 ''base_price'' = Some (JInt 120)) \<and>
   (\<exists>row. price_item_rows (init_parser ''key'' ''cab'' ''7'' 500)
        (JObj [(''nmID'', JInt 111), (''vendorCode'', JStr ''shirt''), (''price'', JInt 90)]) []
        = Inr [row] \<and>
        map_of row ''nm_id'' = Some (JInt 111) \<and>
        map_of row ''vendor_code'' = Some (JStr ''shirt'') \<and>
        map_of row ''size_id'' = Some JNull \<and>
        map_of row ''base_price'' = Some (JInt 90))"
proof -
  let ?p = "init_parser ''key'' ''cab'' ''7'' 500"
  let ?ds = "[[(''sizeID'', JInt 1), (''price'', JInt 100)],
              [(''sizeID'', JInt 2), (''price'', JInt 120), (''techSizeName'', JStr ''XL'')]]"
  let ?i2 = "[(''nmId'', JInt 111), (''vendorCode'', JStr ''shirt''),
              (''sizes'', JArr (map JObj ?ds))]"
  let ?i0 = "[(''nmID'', JInt 111), (''vendorCode'', JStr ''shirt''), (''price'', JInt 90)]"
  have h2: "map_of ?i2 ''sizes'' = Some (JArr (map JObj ?ds)) \<and> ?ds \<noteq> []"
    by simp
  have h0: "map_of ?i0 ''sizes'' = None"
    by simp
  from price_item_rows_per_size[of ?i2 ?ds ?p "[]"] h2
  obtain rows where r: "price_item_rows ?p (JObj ?i2) [] = Inr ([] @ rows)"
    and l: "length rows = length ?ds"
    and f: "\<forall>i<length ?ds.
            map_of (rows ! i) ''nm_id'' = Some (item_identifier ?i2 ''nmID'' ''nmId'') \<and>
            map_of (rows ! i) ''vendor_code'' =
              Some (item_identifier ?i2 ''vendorCode'' ''vendor_code'') \<and>
            map_of (rows ! i) ''size_id'' = Some (field_or_none (?ds ! i) ''sizeID'') \<and>
            map_of (rows ! i) ''size_name'' =
              Some (case map_of (?ds ! i) ''techSizeName'' of None \<Rightarrow> JStr '''' | Some v \<Rightarrow> v) \<and>
            map_of (rows ! i) ''base_price'' = Some (field_or_none (?ds ! i) ''price'')"
    by blast
  from l obtain r1 r2 where rows: "rows = [r1, r2]"
    by (cases rows; cases "tl rows"; cases "tl (tl rows)") auto
  from f have f0: "map_of r1 ''nm_id'' = Some (JInt 111) \<and>
      map_of r1 ''vendor_code'' = Some (JStr ''shirt'') \<and>
      map_of r1 ''size_id'' = Some (JInt 1) \<and> map_of r1 ''size_name'' = Some (JStr '''') \<and>
      map_of r1 ''base_price'' = Some (JInt 100)"
    unfolding rows by (auto simp add: item_identifier_def field_or_none_def dest: spec[of _ 0])
  from f have f1: "map_of r2 ''nm_id'' = Some (JInt 111) \<and>
      map_of r2 ''vendor_code'' = Some (JStr ''shirt'') \<and>
      map_of r2 ''size_id'' = Some (JInt 2) \<and> map_of r2 ''size_name'' = Some (JStr ''XL'') \<and>
      map_of r2 ''base_price'' = Some (JInt 120)"
    unfolding rows by (auto simp add: item_identifier_def field_or_none_def dest: spec[of _ 1])
  from price_item_rows_per_size[of ?i0 _ ?p "[]"] h0
  obtain row where r0: "price_item_rows ?p (JObj ?i0) [] = Inr ([] @ [row])"
    and n0: "map_of row ''nm_id'' = Some (item_identifier ?i0 ''nmID'' ''nmId'')"
    and v0: "map_of row ''vendor_code'' = Some (item_identifier ?i0 ''vendorCode'' ''vendor_code'')"
    and s0: "map_of row ''size_id'' = Some JNull"
    and b0: "map_of row ''base_price'' = Some (field_or_none ?i0 ''price'')"
    by blast
  from n0 v0 b0 have g0: "map_of row ''nm_id'' = Some (JInt 111) \<and>
      map_of row ''vendor_code'' = Some (JStr ''shirt'') \<and>
      map_of row ''base_price'' = Some (JInt 90)"
    by (simp add: item_identifier_def field_or_none_def)
  from r rows f0 f1 have A: "\<exists>r1 r2. price_item_rows ?p (JObj ?i2) [] = Inr [r1, r2] \<and>
        map_of r1 ''nm_id'' = Some (JInt 111) \<and> map_of r2 ''nm_id'' = Some (JInt 111) \<and>
        map_of r1 ''vendor_code'' = Some (JStr ''shirt'') \<and>
        map_of r2 ''vendor_code'' = Some (JStr ''shirt'') \<and>
        map_of r1 ''size_id'' = Some (JInt 1) \<and> map_of r2 ''size_id'' = Some (JInt 2) \<and>
        map_of r1 ''size_name'' = Some (JStr '''') \<and> map_of r2 ''size_name'' = Some (JStr ''XL'') \<and>
        map_of r1 ''base_price'' = Some (JInt 100) \<and> map_of r2 ''base_price'' = Some (JInt 120)"
    by (intro exI[of _ r1] exI[of _ r2]) simp
  from r0 s0 g0 have B: "\<exists>row. price_item_rows ?p (JObj ?i0) [] = Inr [row] \<and>
        map_of row ''nm_id'' = Some (JInt 111) \<and>
        map_of row ''vendor_code'' = Some (JStr ''shirt'') \<and>
        map_of row ''size_id'' = Some JNull \<and>
        map_of row ''base_price'' = Some (JInt 90)"
    by (intro exI[of _ row]) simp
  from A B show ?thesis by simp
qed

subsection \<open>The rows of a run\<close>











end
